theory Spec2Isabelle
  imports Complex_Main "HOL-Library.Sublist"
begin

section \<open>JavaScript numbers and strings\<close>

text \<open>
  The fields \<open>spread\<close>, \<open>confidence\<close> and the three vote counters have the TypeScript
  type \<open>number\<close>. A number is modelled by the rational it denotes, extended with the
  three special values of IEEE arithmetic that the source can produce: a division by
  zero does not raise in JavaScript, it yields \<open>NaN\<close> or an infinity.

  The model is exact: the rounding error of a double is not represented, and neither is
  the negative zero. It therefore agrees with the program wherever the doubles are exact,
  in particular on integers below \<open>2 ^ 53\<close> in absolute value. The sign of a zero can
  never decide the consensus ratio: the sum of the three counters is a negative zero
  only when each counter is one, and then the ratio is \<open>NaN\<close> either way.
\<close>

datatype number = Fin rat | PosInf | NegInf | NaN

fun num_neg :: "number \<Rightarrow> number" where
  "num_neg (Fin a) = Fin (- a)"
| "num_neg PosInf = NegInf"
| "num_neg NegInf = PosInf"
| "num_neg NaN = NaN"

fun num_add :: "number \<Rightarrow> number \<Rightarrow> number" where
  "num_add NaN y = NaN"
| "num_add x NaN = NaN"
| "num_add (Fin a) (Fin b) = Fin (a + b)"
| "num_add PosInf NegInf = NaN"
| "num_add NegInf PosInf = NaN"
| "num_add (Fin a) y = y"
| "num_add x y = x"

definition num_sub :: "number \<Rightarrow> number \<Rightarrow> number" where
  "num_sub x y = num_add x (num_neg y)"

fun num_mul :: "number \<Rightarrow> number \<Rightarrow> number" where
  "num_mul NaN y = NaN"
| "num_mul x NaN = NaN"
| "num_mul (Fin a) (Fin b) = Fin (a * b)"
| "num_mul (Fin a) y =
     (if a = 0 then NaN else if (a < 0) = (y = NegInf) then PosInf else NegInf)"
| "num_mul x (Fin b) =
     (if b = 0 then NaN else if (b < 0) = (x = NegInf) then PosInf else NegInf)"
| "num_mul x y = (if x = y then PosInf else NegInf)"

fun num_div :: "number \<Rightarrow> number \<Rightarrow> number" where
  "num_div NaN y = NaN"
| "num_div x NaN = NaN"
| "num_div (Fin a) (Fin b) =
     (if b \<noteq> 0 then Fin (a / b)
      else if a = 0 then NaN
      else if 0 < a then PosInf else NegInf)"
| "num_div (Fin a) y = Fin 0"
| "num_div x (Fin b) = (if (b < 0) = (x = NegInf) then PosInf else NegInf)"
| "num_div x y = NaN"

text \<open>\<open>Math.round\<close> rounds to the nearest integer, a tie going up: \<open>floor (x + 0.5)\<close>.\<close>

fun math_round :: "number \<Rightarrow> number" where
  "math_round (Fin a) = Fin (of_int \<lfloor>a + 1 / 2\<rfloor>)"
| "math_round x = x"

definition digit :: "nat \<Rightarrow> char" where
  "digit d = ''0123456789'' ! d"

fun digits :: "nat \<Rightarrow> string" where
  "digits n = (if n < 10 then [digit n] else digits (n div 10) @ [digit (n mod 10)])"

declare digits.simps [simp del]

primrec frac_digits :: "nat \<Rightarrow> rat \<Rightarrow> string" where
  "frac_digits 0 r = []"
| "frac_digits (Suc k) r =
     (if r = 0 then []
      else digit (nat \<lfloor>r * 10\<rfloor>) # frac_digits k (r * 10 - of_int \<lfloor>r * 10\<rfloor>))"

text \<open>
  The string a template literal \<open>`${x}`\<close> inserts for a number \<open>x\<close>. An integer is
  written in decimal, as JavaScript does below \<open>10 ^ 21\<close>; a fraction is written by its
  decimal expansion, cut after 20 places, which is JavaScript's output for a value with a
  short expansion that is not below \<open>10 ^ -6\<close>.
\<close>

fun number_to_string :: "number \<Rightarrow> string" where
  "number_to_string NaN = ''NaN''"
| "number_to_string PosInf = ''Infinity''"
| "number_to_string NegInf = ''-Infinity''"
| "number_to_string (Fin a) =
     (if a < 0 then ''-'' else '''') @ digits (nat \<lfloor>\<bar>a\<bar>\<rfloor>) @
     (if \<bar>a\<bar> = of_int \<lfloor>\<bar>a\<bar>\<rfloor> then ''''
      else ''.'' @ frac_digits 20 (\<bar>a\<bar> - of_int \<lfloor>\<bar>a\<bar>\<rfloor>))"

section \<open>The data model\<close>

text \<open>
  \<open>interface Story\<close> and \<open>interface AnalysisResult\<close> of
  \<^verbatim>\<open>services/storyDetection.ts\<close>. The field \<open>id\<close> is \<open>story_id\<close> here and the
  story's \<open>description\<close> and optional \<open>explanation\<close> are \<open>story_description\<close> and
  \<open>story_explanation\<close>, the plain names being taken by the identity function and by the
  fields of a factor and of an analysis result. The object type of \<open>votes\<close> is \<open>tally\<close>.
\<close>

datatype verificationStatus = Fake | Real | Unverified | Investigating | Debunked

text \<open>The string a status is in the source, as a template literal inserts it.\<close>

fun status_string :: "verificationStatus \<Rightarrow> string" where
  "status_string Fake = ''fake''"
| "status_string Real = ''real''"
| "status_string Unverified = ''unverified''"
| "status_string Investigating = ''investigating''"
| "status_string Debunked = ''debunked''"

text \<open>\<open>keyof Story['votes']\<close>: the keys \<open>'credible'\<close>, \<open>'suspicious'\<close> and \<open>'fake'\<close>.\<close>

datatype voteType = Credible | Suspicious | FakeVote

record tally =
  credible :: number
  suspicious :: number
  fake :: number

record factor =
  name :: string
  score :: number
  description :: string

record explanation =
  factors :: "factor list"
  evidence :: "string list"
  conclusion :: string

record story =
  story_id :: string
  title :: string
  story_description :: string
  spread :: number
  confidence :: number
  region :: string
  coordinates :: "number \<times> number"
  sources :: "string list"
  verificationStatus :: verificationStatus
  dateDetected :: string
  votes :: tally
  category :: string
  story_explanation :: "explanation option"

record analysisResult =
  sentiment :: number
  topics :: "string list"
  entities :: "string list"
  credibilityScore :: number
  explanation :: explanation

text \<open>Reading and writing \<open>votes[voteType]\<close>.\<close>

fun get_vote :: "voteType \<Rightarrow> tally \<Rightarrow> number" where
  "get_vote Credible t = credible t"
| "get_vote Suspicious t = suspicious t"
| "get_vote FakeVote t = fake t"

fun set_vote :: "voteType \<Rightarrow> number \<Rightarrow> tally \<Rightarrow> tally" where
  "set_vote Credible v t = t\<lparr>credible := v\<rparr>"
| "set_vote Suspicious v t = t\<lparr>suspicious := v\<rparr>"
| "set_vote FakeVote v t = t\<lparr>fake := v\<rparr>"

section \<open>The story detection service\<close>

subsection \<open>Analysis\<close>

definition generateConclusion :: "story \<Rightarrow> string" where
  "generateConclusion story =
     (if verificationStatus story = Fake then
        ''This story has been identified as false based on multiple factors including lack of credible sources and contradiction with established facts.''
      else if verificationStatus story = Real then
        ''This story has been verified as true with strong evidence and expert consensus.''
      else
        ''This story is currently under investigation. While some evidence suggests credibility, further verification is needed.'')"

text \<open>
  \<open>analyzeStoryContent\<close> is declared \<open>async\<close> and wraps its body in \<open>try\<close>/\<open>catch\<close>. No
  statement of the body throws on a story of the declared type (a division by zero
  yields a number), so the promise always resolves and the model is a total function.

  The specification names its parts: \<open>analyze\<close> is the function, \<open>computeFactors\<close> the
  list \<open>factors\<close> of its explanation, \<open>synthesizeConclusion\<close> is \<open>generateConclusion\<close>.
\<close>

definition analyzeStoryContent :: "story \<Rightarrow> analysisResult" where
  "analyzeStoryContent story =
     \<lparr>sentiment = (if verificationStatus story = Fake then Fin (- 0.8) else Fin 0.6),
      topics = [category story, ''Misinformation'', ''Fact Checking''],
      entities = region story # sources story,
      credibilityScore = confidence story,
      explanation =
        \<lparr>factors =
           [\<lparr>name = ''Source Reliability'',
             score = (if length (sources story) > 1 then Fin 0.8 else Fin 0.4),
             description =
               ''Story has '' @ digits (length (sources story)) @ '' source'' @
               (if length (sources story) > 1 then ''s'' else '''')\<rparr>,
            \<lparr>name = ''Spread Analysis'',
             score = num_sub (Fin 1) (num_div (spread story) (Fin 100)),
             description =
               ''Story has spread to '' @ number_to_string (spread story) @
               ''% of potential audience''\<rparr>,
            \<lparr>name = ''Community Consensus'',
             score =
               num_div (credible (votes story))
                 (num_add (num_add (credible (votes story)) (suspicious (votes story)))
                    (fake (votes story))),
             description =
               number_to_string
                 (math_round
                    (num_mul
                       (num_div (credible (votes story))
                          (num_add
                             (num_add (credible (votes story)) (suspicious (votes story)))
                             (fake (votes story))))
                       (Fin 100))) @
               ''% of voters find it credible''\<rparr>],
         evidence =
           [''Verification Status: '' @ status_string (verificationStatus story),
            ''Confidence Score: '' @
              number_to_string (math_round (num_mul (confidence story) (Fin 100))) @ ''%'',
            ''Category: '' @ category story],
         conclusion = generateConclusion story\<rparr>\<rparr>"

subsection \<open>The stories served\<close>

text \<open>
  \<open>fetchGlobalStories\<close> returns two fixed stories; \<open>dateDetected\<close> is the time of the
  call, an argument here. It does not store them in \<open>this.stories\<close>.
\<close>

definition fetchGlobalStories :: "string \<Rightarrow> story list" where
  "fetchGlobalStories now =
     [\<lparr>story_id = ''1'',
       title = ''Breaking News: Major Scientific Discovery'',
       story_description =
         ''Scientists have made a groundbreaking discovery in quantum computing.'',
       spread = Fin 60,
       confidence = Fin 0.7,
       region = ''Global'',
       coordinates = (Fin 0, Fin 0),
       sources = [''reliable-news.com'', ''science-journal.org''],
       verificationStatus = Investigating,
       dateDetected = now,
       votes = \<lparr>credible = Fin 45, suspicious = Fin 20, fake = Fin 5\<rparr>,
       category = ''Science'',
       story_explanation = Some
         \<lparr>factors =
            [\<lparr>name = ''Source Reliability'', score = Fin 0.85,
              description =
                ''Published in peer-reviewed journals and reputable news sources''\<rparr>,
             \<lparr>name = ''Expert Verification'', score = Fin 0.75,
              description = ''Multiple independent experts have reviewed the findings''\<rparr>,
             \<lparr>name = ''Evidence Quality'', score = Fin 0.65,
              description = ''Strong experimental evidence with reproducible results''\<rparr>],
          evidence =
            [''Peer-reviewed publication in Nature'',
             ''Independent verification by three research teams'',
             ''Detailed methodology available''],
          conclusion =
            ''This story appears credible based on strong evidence and expert verification.''\<rparr>\<rparr>,
      \<lparr>story_id = ''2'',
       title = ''Viral Social Media Claim'',
       story_description =
         ''A viral post claims a new miracle cure for a common condition.'',
       spread = Fin 85,
       confidence = Fin 0.95,
       region = ''Global'',
       coordinates = (Fin 0, Fin 0),
       sources = [''social-media.com''],
       verificationStatus = Fake,
       dateDetected = now,
       votes = \<lparr>credible = Fin 10, suspicious = Fin 30, fake = Fin 150\<rparr>,
       category = ''Health'',
       story_explanation = Some
         \<lparr>factors =
            [\<lparr>name = ''Source Reliability'', score = Fin 0.2,
              description = ''Unverified social media post without credible sources''\<rparr>,
             \<lparr>name = ''Scientific Evidence'', score = Fin 0.1,
              description =
                ''No peer-reviewed studies or clinical trials supporting the claim''\<rparr>,
             \<lparr>name = ''Expert Consensus'', score = Fin 0.15,
              description = ''Contradicts established medical knowledge''\<rparr>],
          evidence =
            [''No scientific studies cited'',
             ''Contradicts FDA guidelines'',
             ''Similar claims previously debunked''],
          conclusion =
            ''This claim is likely false due to lack of evidence and contradiction with medical consensus.''\<rparr>\<rparr>]"

subsection \<open>Votes\<close>

text \<open>A JavaScript \<open>Error\<close> object, by its message.\<close>

datatype error = Error string

text \<open>
  \<open>Array.prototype.find\<close> is \<^const>\<open>List.find\<close>. It returns a reference into the array,
  so the statement \<open>story.votes[voteType]++\<close> changes the first element that satisfies
  the predicate, where it stands. Stories are values here: two elements of an array are
  two objects and share no \<open>votes\<close> object.
\<close>

fun mutate_found :: "('a \<Rightarrow> bool) \<Rightarrow> ('a \<Rightarrow> 'a) \<Rightarrow> 'a list \<Rightarrow> 'a list" where
  "mutate_found P f [] = []"
| "mutate_found P f (x # xs) = (if P x then f x # xs else x # mutate_found P f xs)"

text \<open>
  \<open>updateStoryVote\<close> works on \<open>this.stories\<close>, the private array of the service; the
  model takes it and returns it. The awaited timer always resolves and nothing after it
  throws, so the \<open>catch\<close> block, which would reject with
  \<open>Error('Failed to update vote')\<close>, is never entered: every call resolves.
\<close>

definition updateStoryVote :: "story list \<Rightarrow> string \<Rightarrow> voteType \<Rightarrow> error + story list" where
  "updateStoryVote this_stories storyId voteType =
     (case List.find (\<lambda>s. story_id s = storyId) this_stories of
        Some story \<Rightarrow>
          Inr (mutate_found (\<lambda>s. story_id s = storyId)
                 (\<lambda>story. story\<lparr>votes :=
                    set_vote voteType (num_add (get_vote voteType (votes story)) (Fin 1))
                      (votes story)\<rparr>)
                 this_stories)
      | None \<Rightarrow> Inr this_stories)"

section \<open>The fact-checking component\<close>

text \<open>
  The state that \<open>handleVote\<close> of \<^verbatim>\<open>components/CollaborativeFactChecking.tsx\<close> reads
  and writes: the state cells \<open>stories\<close>, \<open>userVotes\<close> and \<open>analysis\<close> of the component,
  the console, and \<open>service\<close>, the array \<open>this.stories\<close> of the service singleton.
  The other cells (\<open>filter\<close>, \<open>loading\<close>, \<open>error\<close>, \<open>selectedStory\<close>) are not touched
  by a vote.
\<close>

record state =
  service :: "story list"
  stories :: "story list"
  userVotes :: "string \<rightharpoonup> voteType"
  analysis :: "analysisResult option"
  console :: "(string \<times> error) list"

text \<open>
  \<open>userVotes\<close> is a plain object, created as \<open>{}\<close>. The guard \<open>if (userVotes[storyId])\<close>
  tests a property read for truthiness: an own property holds a vote key, a non-empty
  string, which is truthy; a key the object does not own is looked up in
  \<open>Object.prototype\<close>, whose properties are functions or objects, truthy as well.
\<close>

definition object_prototype_keys :: "string list" where
  "object_prototype_keys =
     [''constructor'', ''__defineGetter__'', ''__defineSetter__'', ''hasOwnProperty'',
      ''__lookupGetter__'', ''__lookupSetter__'', ''isPrototypeOf'',
      ''propertyIsEnumerable'', ''toString'', ''valueOf'', ''__proto__'',
      ''toLocaleString'']"

definition truthy_userVotes :: "(string \<rightharpoonup> voteType) \<Rightarrow> string \<Rightarrow> bool" where
  "truthy_userVotes uv storyId =
     (case uv storyId of Some v \<Rightarrow> True | None \<Rightarrow> storyId \<in> set object_prototype_keys)"

text \<open>
  \<open>handleVote\<close> is a closure over the \<open>stories\<close> and \<open>userVotes\<close> of the render that
  created it. The model runs one call from a settled state, with no other update of the
  component between its first and its last statement, so the updater functions given to
  \<open>setStories\<close> and \<open>setUserVotes\<close> receive the values the closure holds. What
  \<open>stories.find\<close> reads after the updates is still the array of the closure.

  The method awaited is the first argument: the component imports the service object and
  calls \<open>storyDetectionService.updateStoryVote\<close>; \<open>Inl\<close> is a rejected promise, which
  leaves \<open>this.stories\<close> as it was. \<open>analyzeStory\<close> is started without \<open>await\<close>; its
  \<open>setAnalysis\<close> is part of the state returned here.

  The first component of the result is how the promise of \<open>handleVote\<close> settles:
  \<open>Inr ()\<close> when it resolves, \<open>Inl\<close> when it rejects. The specification's \<open>castVote\<close>
  is \<open>handleVote\<close> with the method \<open>updateStoryVote\<close> of the service, its record of
  votes is \<open>userVotes\<close>.
\<close>

definition handleVote ::
  "(story list \<Rightarrow> string \<Rightarrow> voteType \<Rightarrow> error + story list) \<Rightarrow>
   string \<Rightarrow> voteType \<Rightarrow> state \<Rightarrow> (error + unit) \<times> state" where
  "handleVote service_updateStoryVote storyId voteType st =
     (if truthy_userVotes (userVotes st) storyId then (Inr (), st)
      else
        case service_updateStoryVote (service st) storyId voteType of
          Inr this_stories \<Rightarrow>
            (Inr (),
             st\<lparr>service := this_stories,
                stories :=
                  map (\<lambda>story.
                         if story_id story = storyId then
                           story\<lparr>votes :=
                             set_vote voteType
                               (num_add (get_vote voteType (votes story)) (Fin 1))
                               (votes story)\<rparr>
                         else story)
                    (stories st),
                userVotes := (userVotes st)(storyId \<mapsto> voteType),
                analysis :=
                  (case List.find (\<lambda>s. story_id s = storyId) (stories st) of
                     Some updatedStory \<Rightarrow> Some (analyzeStoryContent updatedStory)
                   | None \<Rightarrow> analysis st)\<rparr>)
        | Inl error \<Rightarrow>
            (Inr (),
             st\<lparr>console := console st @ [(''Error updating vote:'', error)],
                stories :=
                  map (\<lambda>story.
                         if story_id story = storyId then
                           story\<lparr>votes :=
                             set_vote voteType
                               (num_sub (get_vote voteType (votes story)) (Fin 1))
                               (votes story)\<rparr>
                         else story)
                    (stories st),
                userVotes := (userVotes st)(storyId := None)\<rparr>))"

text \<open>
  The component once \<open>fetchStories\<close> has run at the time \<open>now\<close>: the stories served, no
  vote, no analysis. Nothing in the service ever writes \<open>this.stories\<close>, which is the
  empty array it was created as.
\<close>

definition loaded :: "string \<Rightarrow> state" where
  "loaded now =
     \<lparr>service = [], stories = fetchGlobalStories now, userVotes = Map.empty,
      analysis = None, console = []\<rparr>"

text \<open>
  A service method whose promise rejects, with the error that the \<open>catch\<close> block of
  \<open>updateStoryVote\<close> throws: the failing persistence that the \<open>catch\<close> block of
  \<open>handleVote\<close> is written for.
\<close>

definition failing_updateStoryVote ::
  "story list \<Rightarrow> string \<Rightarrow> voteType \<Rightarrow> error + story list" where
  "failing_updateStoryVote this_stories storyId voteType = Inl (Error ''Failed to update vote'')"

section \<open>The conclusion\<close>

lemma sublist_identified_as_false:
  "sublist ''identified as false''
     ''This story has been identified as false based on multiple factors including lack of credible sources and contradiction with established facts.''"
  by code_simp

lemma sublist_verified_as_true:
  "sublist ''verified as true''
     ''This story has been verified as true with strong evidence and expert consensus.''"
  by code_simp

lemma sublist_under_investigation:
  "sublist ''under investigation''
     ''This story is currently under investigation. While some evidence suggests credibility, further verification is needed.''"
  by code_simp

text \<open>
  C5. The conclusion is a three-way classification of the five statuses. Whatever the
  other fields of a story are: the conclusion for \<open>fake\<close> contains "identified as false"
  and differs from the conclusion for \<open>debunked\<close>; \<open>debunked\<close>, \<open>unverified\<close> and
  \<open>investigating\<close> yield one and the same conclusion, which contains
  "under investigation"; and \<open>real\<close> yields a conclusion different from both, which
  contains "verified as true".
\<close>

theorem generateConclusion_three_way:
  "generateConclusion (s\<lparr>verificationStatus := Fake\<rparr>) \<noteq>
     generateConclusion (s\<lparr>verificationStatus := Debunked\<rparr>)
   \<and> sublist ''identified as false'' (generateConclusion (s\<lparr>verificationStatus := Fake\<rparr>))
   \<and> generateConclusion (s\<lparr>verificationStatus := Unverified\<rparr>) =
       generateConclusion (s\<lparr>verificationStatus := Debunked\<rparr>)
   \<and> generateConclusion (s\<lparr>verificationStatus := Investigating\<rparr>) =
       generateConclusion (s\<lparr>verificationStatus := Debunked\<rparr>)
   \<and> sublist ''under investigation''
       (generateConclusion (s\<lparr>verificationStatus := Debunked\<rparr>))
   \<and> generateConclusion (s\<lparr>verificationStatus := Real\<rparr>) \<noteq>
       generateConclusion (s\<lparr>verificationStatus := Fake\<rparr>)
   \<and> generateConclusion (s\<lparr>verificationStatus := Real\<rparr>) \<noteq>
       generateConclusion (s\<lparr>verificationStatus := Debunked\<rparr>)
   \<and> sublist ''verified as true'' (generateConclusion (s\<lparr>verificationStatus := Real\<rparr>))"
  using sublist_identified_as_false sublist_verified_as_true sublist_under_investigation
  by (simp add: generateConclusion_def)

text \<open>The classification at the first story served, an \<open>investigating\<close> one.\<close>

theorem generateConclusion_three_way_witness:
  "generateConclusion (hd (fetchGlobalStories ''2024-05-01T09:30:00.000Z'')) =
     generateConclusion
       ((hd (fetchGlobalStories ''2024-05-01T09:30:00.000Z''))\<lparr>verificationStatus := Debunked\<rparr>)
   \<and> generateConclusion (hd (fetchGlobalStories ''2024-05-01T09:30:00.000Z'')) \<noteq>
       generateConclusion
         ((hd (fetchGlobalStories ''2024-05-01T09:30:00.000Z''))\<lparr>verificationStatus := Fake\<rparr>)
   \<and> sublist ''under investigation''
       (generateConclusion (hd (fetchGlobalStories ''2024-05-01T09:30:00.000Z'')))"
  using generateConclusion_three_way [of "hd (fetchGlobalStories ''2024-05-01T09:30:00.000Z'')"]
  by (simp add: generateConclusion_def fetchGlobalStories_def)

section \<open>The analysis\<close>





section \<open>The factors\<close>

text \<open>
  The factor list of every story: three factors, named Source Reliability, Spread
  Analysis and Community Consensus in this order; the scores are \<open>0.8\<close> for more than one
  source and \<open>0.4\<close> otherwise, \<open>1 - spread / 100\<close>, and the credible votes divided by the
  sum of the three counters; the descriptions state the number of sources, the spread and
  the rounded percentage of the ratio.
\<close>

lemma analyzeStoryContent_factors:
  "factors (explanation (analyzeStoryContent s)) =
     [\<lparr>name = ''Source Reliability'',
       score = (if length (sources s) > 1 then Fin 0.8 else Fin 0.4),
       description =
         ''Story has '' @ digits (length (sources s)) @
         (if length (sources s) > 1 then '' sources'' else '' source'')\<rparr>,
      \<lparr>name = ''Spread Analysis'',
       score = num_sub (Fin 1) (num_div (spread s) (Fin 100)),
       description =
         ''Story has spread to '' @ number_to_string (spread s) @ ''% of potential audience''\<rparr>,
      \<lparr>name = ''Community Consensus'',
       score =
         num_div (credible (votes s))
           (num_add (num_add (credible (votes s)) (suspicious (votes s))) (fake (votes s))),
       description =
         number_to_string
           (math_round
              (num_mul
                 (num_div (credible (votes s))
                    (num_add (num_add (credible (votes s)) (suspicious (votes s)))
                       (fake (votes s))))
                 (Fin 100))) @
         ''% of voters find it credible''\<rparr>]"
  by (simp add: analyzeStoryContent_def)

text \<open>
  C3. The plural of the first description is decided by the test of the score,
  \<open>length > 1\<close>, so that the count zero takes the singular: for a story without sources,
  whatever its other fields, the description reads "Story has 0 source".
\<close>

theorem no_source_singular:
  "description (factors (explanation (analyzeStoryContent (s\<lparr>sources := []\<rparr>))) ! 0) =
     ''Story has 0 source''"
proof -
  have "digits 0 = ''0''" by code_simp
  then show ?thesis by (simp add: analyzeStoryContent_def)
qed

text \<open>
  C4, as the claim has it: a story without votes would have a consensus factor of score
  \<open>0\<close> described as "no votes yet". The first story served, its counters set to zero,
  has the score \<open>NaN\<close> and a description that prints it.
\<close>

theorem consensus_without_votes_counterexample:
  "score (factors (explanation (analyzeStoryContent
      ((hd (fetchGlobalStories ''2024-05-01T09:30:00.000Z''))
         \<lparr>votes := \<lparr>credible = Fin 0, suspicious = Fin 0, fake = Fin 0\<rparr>\<rparr>))) ! 2) = NaN
   \<and> description (factors (explanation (analyzeStoryContent
      ((hd (fetchGlobalStories ''2024-05-01T09:30:00.000Z''))
         \<lparr>votes := \<lparr>credible = Fin 0, suspicious = Fin 0, fake = Fin 0\<rparr>\<rparr>))) ! 2) =
       ''NaN% of voters find it credible''"
  by (simp add: analyzeStoryContent_def)

text \<open>
  C4, amended. For every story whose three vote counters are non-negative numbers of sum
  \<open>0\<close>, the Community Consensus factor has the score \<open>NaN\<close>, the value of \<open>0 / 0\<close>, and the
  description "NaN% of voters find it credible".
\<close>

theorem consensus_without_votes:
  assumes "votes s = \<lparr>credible = Fin a, suspicious = Fin b, fake = Fin c\<rparr>"
    and "0 \<le> a" and "0 \<le> b" and "0 \<le> c" and "a + b + c = 0"
  shows "score (factors (explanation (analyzeStoryContent s)) ! 2) = NaN
   \<and> description (factors (explanation (analyzeStoryContent s)) ! 2) =
       ''NaN% of voters find it credible''"
proof -
  from assms have "a = 0" "b = 0" "c = 0" by linarith+
  with assms(1) show ?thesis by (simp add: analyzeStoryContent_def)
qed

text \<open>The second story served, its counters set to zero.\<close>

theorem consensus_without_votes_witness:
  "score (factors (explanation (analyzeStoryContent
      ((hd (tl (fetchGlobalStories ''2024-05-01T09:30:00.000Z'')))
         \<lparr>votes := \<lparr>credible = Fin 0, suspicious = Fin 0, fake = Fin 0\<rparr>\<rparr>))) ! 2) = NaN
   \<and> description (factors (explanation (analyzeStoryContent
      ((hd (tl (fetchGlobalStories ''2024-05-01T09:30:00.000Z'')))
         \<lparr>votes := \<lparr>credible = Fin 0, suspicious = Fin 0, fake = Fin 0\<rparr>\<rparr>))) ! 2) =
       ''NaN% of voters find it credible''"
  using consensus_without_votes
    [of "(hd (tl (fetchGlobalStories ''2024-05-01T09:30:00.000Z'')))
           \<lparr>votes := \<lparr>credible = Fin 0, suspicious = Fin 0, fake = Fin 0\<rparr>\<rparr>" 0 0 0]
  by simp

section \<open>The consensus score\<close>

lemma consensus_scenario_string:
  "number_to_string (math_round (num_mul
      (num_div (Fin 45) (num_add (num_add (Fin 45) (Fin 20)) (Fin 5))) (Fin 100))) = ''64''"
  by code_simp

lemma consensus_scenario_round:
  "rat_of_int \<lfloor>(45 / 70 :: rat) * 1000 + 1 / 2\<rfloor> / 1000 = 0.643"
proof -
  have "\<lfloor>(45 / 70 :: rat) * 1000 + 1 / 2\<rfloor> = 643"
    by (simp add: floor_eq_iff)
  then show ?thesis by simp
qed

lemma sublist_64: "sublist ''64%'' ''64% of voters find it credible''"
  by code_simp

lemma ratio_in_unit_interval:
  fixes a b c :: nat
  assumes "0 < a + b + c"
  shows "num_div (Fin (of_nat a))
           (num_add (num_add (Fin (of_nat a)) (Fin (of_nat b))) (Fin (of_nat c))) =
         Fin (of_nat a / of_nat (a + b + c))"
    and "0 \<le> (of_nat a / of_nat (a + b + c) :: rat)"
    and "(of_nat a / of_nat (a + b + c) :: rat) \<le> 1"
proof -
  from assms have pos: "0 < (of_nat (a + b + c) :: rat)"
    by (simp only: of_nat_0_less_iff)
  then show "num_div (Fin (of_nat a))
           (num_add (num_add (Fin (of_nat a)) (Fin (of_nat b))) (Fin (of_nat c))) =
         Fin (of_nat a / of_nat (a + b + c))"
    by simp
  show "0 \<le> (of_nat a / of_nat (a + b + c) :: rat)"
    by simp
  have "(of_nat a :: rat) \<le> of_nat (a + b + c)"
    by (simp only: of_nat_le_iff)
  with pos show "(of_nat a / of_nat (a + b + c) :: rat) \<le> 1"
    by (simp add: divide_le_eq_1)
qed

text \<open>
  C8. For every story whose vote counters are natural numbers of a positive sum, the
  Community Consensus score is a number between \<open>0\<close> and \<open>1\<close>. For every story with two
  sources, a spread of \<open>60\<close> and the votes \<open>45\<close>, \<open>20\<close> and \<open>5\<close>, the Source
  Reliability score is \<open>0.8\<close>, the Spread Analysis score is \<open>0.4\<close>, the Community Consensus
  score is \<open>45 / 70\<close>, which is \<open>0.643\<close> when rounded to three decimals, and the
  description of the consensus is "64% of voters find it credible".
\<close>

theorem consensus_score_range_and_scenario:
  "(\<forall>a b c :: nat.
      votes s = \<lparr>credible = Fin (of_nat a), suspicious = Fin (of_nat b), fake = Fin (of_nat c)\<rparr>
        \<and> 0 < a + b + c \<longrightarrow>
      (\<exists>r. score (factors (explanation (analyzeStoryContent s)) ! 2) = Fin r \<and>
           0 \<le> r \<and> r \<le> 1))
   \<and> (\<forall>x y.
        sources s = [x, y] \<and> spread s = Fin 60 \<and>
        votes s = \<lparr>credible = Fin 45, suspicious = Fin 20, fake = Fin 5\<rparr> \<longrightarrow>
        map name (factors (explanation (analyzeStoryContent s))) =
          [''Source Reliability'', ''Spread Analysis'', ''Community Consensus''] \<and>
        score (factors (explanation (analyzeStoryContent s)) ! 0) = Fin 0.8 \<and>
        score (factors (explanation (analyzeStoryContent s)) ! 1) = Fin 0.4 \<and>
        (\<exists>r. score (factors (explanation (analyzeStoryContent s)) ! 2) = Fin r \<and>
             r = 45 / 70 \<and> rat_of_int \<lfloor>r * 1000 + 1 / 2\<rfloor> / 1000 = 0.643) \<and>
        description (factors (explanation (analyzeStoryContent s)) ! 2) =
          ''64% of voters find it credible'' \<and>
        sublist ''64%'' (description (factors (explanation (analyzeStoryContent s)) ! 2)))"
proof (intro conjI allI impI)
  fix a b c :: nat
  assume h: "votes s = \<lparr>credible = Fin (of_nat a), suspicious = Fin (of_nat b),
      fake = Fin (of_nat c)\<rparr> \<and> 0 < a + b + c"
  then have "score (factors (explanation (analyzeStoryContent s)) ! 2) =
      Fin (of_nat a / of_nat (a + b + c))"
    using ratio_in_unit_interval(1) [of a b c] by (simp add: analyzeStoryContent_factors)
  with h ratio_in_unit_interval(2,3) [of a b c]
  show "\<exists>r. score (factors (explanation (analyzeStoryContent s)) ! 2) = Fin r \<and> 0 \<le> r \<and> r \<le> 1"
    by blast
next
  fix x y
  assume h: "sources s = [x, y] \<and> spread s = Fin 60 \<and>
        votes s = \<lparr>credible = Fin 45, suspicious = Fin 20, fake = Fin 5\<rparr>"
  show "map name (factors (explanation (analyzeStoryContent s))) =
          [''Source Reliability'', ''Spread Analysis'', ''Community Consensus'']"
    by (simp add: analyzeStoryContent_factors)
  from h show "score (factors (explanation (analyzeStoryContent s)) ! 0) = Fin 0.8"
    by (simp add: analyzeStoryContent_factors)
  from h show "score (factors (explanation (analyzeStoryContent s)) ! 1) = Fin 0.4"
    by (simp add: analyzeStoryContent_factors num_sub_def)
  from h have "score (factors (explanation (analyzeStoryContent s)) ! 2) = Fin (45 / 70)"
    by (simp add: analyzeStoryContent_factors)
  with consensus_scenario_round
  show "\<exists>r. score (factors (explanation (analyzeStoryContent s)) ! 2) = Fin r \<and>
             r = 45 / 70 \<and> rat_of_int \<lfloor>r * 1000 + 1 / 2\<rfloor> / 1000 = 0.643"
    by blast
  from h consensus_scenario_string
  show d: "description (factors (explanation (analyzeStoryContent s)) ! 2) =
          ''64% of voters find it credible''"
    by (simp add: analyzeStoryContent_factors del: num_add.simps num_div.simps num_mul.simps math_round.simps number_to_string.simps)
  show "sublist ''64%'' (description (factors (explanation (analyzeStoryContent s)) ! 2))"
    unfolding d by (rule sublist_64)
qed

text \<open>The first story served is the story of the scenario.\<close>

theorem consensus_score_range_and_scenario_witness:
  "score (factors (explanation
      (analyzeStoryContent (hd (fetchGlobalStories ''2024-05-01T09:30:00.000Z'')))) ! 0) = Fin 0.8
   \<and> score (factors (explanation
      (analyzeStoryContent (hd (fetchGlobalStories ''2024-05-01T09:30:00.000Z'')))) ! 1) = Fin 0.4
   \<and> score (factors (explanation
      (analyzeStoryContent (hd (fetchGlobalStories ''2024-05-01T09:30:00.000Z'')))) ! 2) =
        Fin (9 / 14)
   \<and> description (factors (explanation
      (analyzeStoryContent (hd (fetchGlobalStories ''2024-05-01T09:30:00.000Z'')))) ! 2) =
        ''64% of voters find it credible''
   \<and> (\<exists>r. score (factors (explanation (analyzeStoryContent
          (hd (fetchGlobalStories ''2024-05-01T09:30:00.000Z'')))) ! 2) = Fin r \<and> 0 \<le> r \<and> r \<le> 1)"
proof -
  let ?s = "hd (fetchGlobalStories ''2024-05-01T09:30:00.000Z'')"
  note t = consensus_score_range_and_scenario [of ?s]
  have v: "votes ?s = \<lparr>credible = Fin (of_nat 45), suspicious = Fin (of_nat 20),
      fake = Fin (of_nat 5)\<rparr> \<and> 0 < (45::nat) + 20 + 5"
    by (simp add: fetchGlobalStories_def)
  have w: "sources ?s = [''reliable-news.com'', ''science-journal.org''] \<and> spread ?s = Fin 60 \<and>
      votes ?s = \<lparr>credible = Fin 45, suspicious = Fin 20, fake = Fin 5\<rparr>"
    by (simp add: fetchGlobalStories_def)
  from t v have 1: "\<exists>r. score (factors (explanation (analyzeStoryContent ?s)) ! 2) = Fin r \<and>
      0 \<le> r \<and> r \<le> 1"
    by blast
  from t w have 2: "score (factors (explanation (analyzeStoryContent ?s)) ! 0) = Fin 0.8 \<and>
        score (factors (explanation (analyzeStoryContent ?s)) ! 1) = Fin 0.4 \<and>
        (\<exists>r. score (factors (explanation (analyzeStoryContent ?s)) ! 2) = Fin r \<and>
             r = 45 / 70 \<and> rat_of_int \<lfloor>r * 1000 + 1 / 2\<rfloor> / 1000 = 0.643) \<and>
        description (factors (explanation (analyzeStoryContent ?s)) ! 2) =
          ''64% of voters find it credible''"
    by blast
  from 1 2 show ?thesis by auto
qed

section \<open>Voting\<close>

text \<open>
  Every path of \<open>handleVote\<close> ends by returning: its promise resolves, whatever the
  service does.
\<close>

lemma handleVote_resolves: "fst (handleVote service_updateStoryVote storyId voteType st) = Inr ()"
  by (simp add: handleVote_def split: sum.split)

lemma not_voted_loaded: "\<not> truthy_userVotes Map.empty ''1''"
  by (simp add: truthy_userVotes_def object_prototype_keys_def)

text \<open>
  C2, as the claim has it: a second vote on a story would be rejected with an error. The
  promise of \<open>handleVote\<close> resolves for a second vote on the first story served, as it
  does for the first vote.
\<close>

theorem second_vote_silent_counterexample:
  "fst (handleVote updateStoryVote ''1'' FakeVote
          (snd (handleVote updateStoryVote ''1'' Credible (loaded ''2024-05-01T09:30:00.000Z'')))) =
     Inr ()"
  by (simp add: handleVote_def truthy_userVotes_def loaded_def updateStoryVote_def
      object_prototype_keys_def)

text \<open>
  C2, amended. When \<open>userVotes\<close> holds a vote for the story, \<open>handleVote\<close> returns at its
  first statement: the state is the one it was called in, with the tallies, the recorded
  votes, the array of the service, the analysis and the console, and this for any
  service method, which is not called. The promise resolves; no error is signalled.
\<close>

theorem second_vote_no_effect:
  assumes "userVotes st storyId = Some v"
  shows "handleVote service_updateStoryVote storyId voteType st = (Inr (), st)"
  using assms by (simp add: handleVote_def truthy_userVotes_def)

text \<open>A second vote after a first one on the first story served, the service failing.\<close>

theorem second_vote_no_effect_witness:
  "userVotes (snd (handleVote updateStoryVote ''1'' Credible (loaded ''2024-05-01T09:30:00.000Z'')))
     ''1'' = Some Credible
   \<and> handleVote failing_updateStoryVote ''1'' FakeVote
       (snd (handleVote updateStoryVote ''1'' Credible (loaded ''2024-05-01T09:30:00.000Z''))) =
     (Inr (), snd (handleVote updateStoryVote ''1'' Credible (loaded ''2024-05-01T09:30:00.000Z'')))"
proof -
  have h: "userVotes (snd (handleVote updateStoryVote ''1'' Credible
      (loaded ''2024-05-01T09:30:00.000Z''))) ''1'' = Some Credible"
    by (simp add: handleVote_def loaded_def updateStoryVote_def not_voted_loaded
        split: option.split)
  from h second_vote_no_effect [OF h] show ?thesis by simp
qed

text \<open>
  C1, as the claim has it: a vote whose persistence fails would leave the tally as it was
  and signal the failure. For a vote \<open>credible\<close> on the first story served, with a
  failing service, the promise of \<open>handleVote\<close> resolves and the tally, \<open>45\<close>, \<open>20\<close>,
  \<open>5\<close> before the call, is \<open>44\<close>, \<open>20\<close>, \<open>5\<close> after it: the \<open>catch\<close> block takes back
  an increment that the \<open>try\<close> block makes only after the awaited call.
\<close>

theorem failed_vote_counterexample:
  "fst (handleVote failing_updateStoryVote ''1'' Credible (loaded ''2024-05-01T09:30:00.000Z'')) =
     Inr ()
   \<and> votes (hd (stories (loaded ''2024-05-01T09:30:00.000Z''))) =
       \<lparr>credible = Fin 45, suspicious = Fin 20, fake = Fin 5\<rparr>
   \<and> votes (hd (stories (snd (handleVote failing_updateStoryVote ''1'' Credible
         (loaded ''2024-05-01T09:30:00.000Z''))))) =
       \<lparr>credible = Fin 44, suspicious = Fin 20, fake = Fin 5\<rparr>"
  by (simp add: handleVote_def truthy_userVotes_def loaded_def failing_updateStoryVote_def
      object_prototype_keys_def fetchGlobalStories_def num_sub_def)

lemma get_vote_set_vote_other: "k \<noteq> voteType \<Longrightarrow> get_vote k (set_vote voteType v t) = get_vote k t"
  by (cases k; cases voteType) simp_all


text \<open>
  C1, amended. When the call of the service fails during \<open>handleVote\<close>, for a story
  that passes the guard: the promise of \<open>handleVote\<close> resolves, the failure being logged
  to the console and not signalled; no vote is recorded for the story, the recorded votes
  being those before the call; the array of the service and the analysis are as before;
  the stories are as many as before, a story with another id is as before, and a story
  with the id is as before in every field but \<open>votes\<close>, where the two counters not voted
  for are as before.
\<close>

theorem failed_vote_handled:
  assumes "\<not> truthy_userVotes (userVotes st) storyId"
    and "service_updateStoryVote (service st) storyId voteType = Inl e"
  shows "fst (handleVote service_updateStoryVote storyId voteType st) = Inr ()
   \<and> userVotes (snd (handleVote service_updateStoryVote storyId voteType st)) storyId = None
   \<and> userVotes (snd (handleVote service_updateStoryVote storyId voteType st)) = userVotes st
   \<and> console (snd (handleVote service_updateStoryVote storyId voteType st)) =
       console st @ [(''Error updating vote:'', e)]
   \<and> service (snd (handleVote service_updateStoryVote storyId voteType st)) = service st
   \<and> analysis (snd (handleVote service_updateStoryVote storyId voteType st)) = analysis st
   \<and> length (stories (snd (handleVote service_updateStoryVote storyId voteType st))) =
       length (stories st)
   \<and> (\<forall>i<length (stories st).
         (story_id (stories st ! i) \<noteq> storyId \<longrightarrow>
            stories (snd (handleVote service_updateStoryVote storyId voteType st)) ! i =
              stories st ! i) \<and>
         stories (snd (handleVote service_updateStoryVote storyId voteType st)) ! i =
           (stories st ! i)\<lparr>votes :=
              votes (stories (snd (handleVote service_updateStoryVote storyId voteType st)) ! i)\<rparr> \<and>
         (\<forall>k. k \<noteq> voteType \<longrightarrow>
            get_vote k
              (votes (stories (snd (handleVote service_updateStoryVote storyId voteType st)) ! i)) =
            get_vote k (votes (stories st ! i))))"
proof -
  from assms(1) have none: "userVotes st storyId = None"
    by (simp add: truthy_userVotes_def split: option.splits)
  then have same: "(userVotes st)(storyId := None) = userVotes st"
    by (simp add: fun_upd_idem)
  let ?dec = "\<lambda>story. if story_id story = storyId
      then story\<lparr>votes := set_vote voteType (num_sub (get_vote voteType (votes story)) (Fin 1))
        (votes story)\<rparr> else story"
  have r: "handleVote service_updateStoryVote storyId voteType st =
      (Inr (), st\<lparr>console := console st @ [(''Error updating vote:'', e)],
         stories := map ?dec (stories st), userVotes := userVotes st\<rparr>)"
    using assms by (simp add: handleVote_def same)
  show ?thesis
    unfolding r using none by (simp add: get_vote_set_vote_other)
qed

text \<open>A vote \<open>suspicious\<close> on the first story served, the service failing.\<close>

theorem failed_vote_handled_witness:
  "fst (handleVote failing_updateStoryVote ''1'' Suspicious (loaded ''2024-05-01T09:30:00.000Z'')) =
     Inr ()
   \<and> userVotes (snd (handleVote failing_updateStoryVote ''1'' Suspicious
        (loaded ''2024-05-01T09:30:00.000Z''))) ''1'' = None
   \<and> console (snd (handleVote failing_updateStoryVote ''1'' Suspicious
        (loaded ''2024-05-01T09:30:00.000Z''))) =
       [(''Error updating vote:'', Error ''Failed to update vote'')]
   \<and> stories (snd (handleVote failing_updateStoryVote ''1'' Suspicious
        (loaded ''2024-05-01T09:30:00.000Z''))) ! 1 =
       stories (loaded ''2024-05-01T09:30:00.000Z'') ! 1
   \<and> credible (votes (stories (snd (handleVote failing_updateStoryVote ''1'' Suspicious
        (loaded ''2024-05-01T09:30:00.000Z''))) ! 0)) = Fin 45"
proof -
  let ?st = "loaded ''2024-05-01T09:30:00.000Z''"
  have a: "\<not> truthy_userVotes (userVotes ?st) ''1''"
    by (simp add: loaded_def not_voted_loaded)
  have b: "failing_updateStoryVote (service ?st) ''1'' Suspicious =
      Inl (Error ''Failed to update vote'')"
    by (simp add: failing_updateStoryVote_def)
  note t = failed_vote_handled
    [where service_updateStoryVote = failing_updateStoryVote and voteType = Suspicious, OF a b]
  have l: "length (stories ?st) = 2" "story_id (stories ?st ! 1) \<noteq> ''1''"
    "get_vote Credible (votes (stories ?st ! 0)) = Fin 45" "console ?st = []"
    by (simp_all add: loaded_def fetchGlobalStories_def)
  from t l have "stories (snd (handleVote failing_updateStoryVote ''1'' Suspicious ?st)) ! 1 =
       stories ?st ! 1" by simp
  moreover from t l have "get_vote Credible (votes (stories (snd (handleVote failing_updateStoryVote
      ''1'' Suspicious ?st)) ! 0)) = Fin 45"
    by (metis voteType.distinct(1) zero_less_numeral)
  moreover from t have "fst (handleVote failing_updateStoryVote ''1'' Suspicious ?st) = Inr ()"
    and "userVotes (snd (handleVote failing_updateStoryVote ''1'' Suspicious ?st)) ''1'' = None"
    and "console (snd (handleVote failing_updateStoryVote ''1'' Suspicious ?st)) =
      console ?st @ [(''Error updating vote:'', Error ''Failed to update vote'')]"
    by blast+
  ultimately show ?thesis using l(4) by simp
qed

text \<open>
  The story that a successful vote analyses is the one \<open>stories.find\<close> returns from the
  array of the closure, which the updater of \<open>setStories\<close> has not changed.
\<close>

lemma handleVote_analysis_of_closure:
  assumes "\<not> truthy_userVotes (userVotes st) storyId"
    and "service_updateStoryVote (service st) storyId voteType = Inr this_stories"
    and "List.find (\<lambda>s. story_id s = storyId) (stories st) = Some updatedStory"
  shows "analysis (snd (handleVote service_updateStoryVote storyId voteType st)) =
     Some (analyzeStoryContent updatedStory)"
  using assms by (simp add: handleVote_def)

text \<open>
  C7. A vote \<open>credible\<close> on the first story served succeeds and raises its tally to
  \<open>46\<close>, \<open>20\<close>, \<open>5\<close>. The analysis stored by the vote is the analysis of the story
  before the vote: its Community Consensus score is \<open>45 / 70\<close>, where the analysis of the
  story after the vote has \<open>46 / 71\<close>.
\<close>

theorem vote_analysis_stale:
  "fst (handleVote updateStoryVote ''1'' Credible (loaded ''2024-05-01T09:30:00.000Z'')) = Inr ()
   \<and> votes (hd (stories (snd (handleVote updateStoryVote ''1'' Credible
         (loaded ''2024-05-01T09:30:00.000Z''))))) =
       \<lparr>credible = Fin 46, suspicious = Fin 20, fake = Fin 5\<rparr>
   \<and> analysis (snd (handleVote updateStoryVote ''1'' Credible
         (loaded ''2024-05-01T09:30:00.000Z''))) =
       Some (analyzeStoryContent (hd (stories (loaded ''2024-05-01T09:30:00.000Z''))))
   \<and> map_option (\<lambda>a. score (factors (explanation a) ! 2))
        (analysis (snd (handleVote updateStoryVote ''1'' Credible
           (loaded ''2024-05-01T09:30:00.000Z'')))) = Some (Fin (45 / 70))
   \<and> score (factors (explanation (analyzeStoryContent
        (hd (stories (snd (handleVote updateStoryVote ''1'' Credible
           (loaded ''2024-05-01T09:30:00.000Z''))))))) ! 2) = Fin (46 / 71)"
proof -
  let ?st = "loaded ''2024-05-01T09:30:00.000Z''"
  let ?r = "handleVote updateStoryVote ''1'' Credible ?st"
  have a: "\<not> truthy_userVotes (userVotes ?st) ''1''"
    by (simp add: loaded_def not_voted_loaded)
  have b: "updateStoryVote (service ?st) ''1'' Credible = Inr []"
    by (simp add: loaded_def updateStoryVote_def)
  have c: "List.find (\<lambda>s. story_id s = ''1'') (stories ?st) = Some (hd (stories ?st))"
    by (simp add: loaded_def fetchGlobalStories_def)
  have r: "?r = (Inr (),
      ?st\<lparr>service := [],
        stories := map (\<lambda>story. if story_id story = ''1'' then
           story\<lparr>votes := set_vote Credible (num_add (get_vote Credible (votes story)) (Fin 1))
             (votes story)\<rparr> else story) (stories ?st),
        userVotes := (userVotes ?st)(''1'' \<mapsto> Credible),
        analysis := Some (analyzeStoryContent (hd (stories ?st)))\<rparr>)"
    using a b c by (simp add: handleVote_def)
  have v: "votes (hd (stories (snd ?r))) = \<lparr>credible = Fin 46, suspicious = Fin 20, fake = Fin 5\<rparr>"
    unfolding r by (simp add: loaded_def fetchGlobalStories_def)
  have s0: "votes (hd (stories ?st)) = \<lparr>credible = Fin 45, suspicious = Fin 20, fake = Fin 5\<rparr>"
    by (simp add: loaded_def fetchGlobalStories_def)
  have "score (factors (explanation (analyzeStoryContent (hd (stories ?st)))) ! 2) = Fin (45 / 70)"
    by (simp add: analyzeStoryContent_factors s0)
  moreover have "score (factors (explanation (analyzeStoryContent (hd (stories (snd ?r))))) ! 2) =
      Fin (46 / 71)"
    by (simp add: analyzeStoryContent_factors v)
  moreover have "analysis (snd ?r) = Some (analyzeStoryContent (hd (stories ?st)))"
    unfolding r by simp
  moreover have "fst ?r = Inr ()"
    unfolding r by simp
  ultimately show ?thesis using v by simp
qed

text \<open>
  C9, as the claim has it: a vote for a story that the store does not hold would return
  an error. \<open>updateStoryVote\<close> resolves for the id \<open>7\<close>, on the empty array of the
  service and on an array of the two stories served, and so does \<open>handleVote\<close>.
\<close>

theorem unknown_story_counterexample:
  "updateStoryVote [] ''7'' Credible = Inr []
   \<and> updateStoryVote (fetchGlobalStories ''2024-05-01T09:30:00.000Z'') ''7'' Credible =
       Inr (fetchGlobalStories ''2024-05-01T09:30:00.000Z'')
   \<and> fst (handleVote updateStoryVote ''7'' Credible (loaded ''2024-05-01T09:30:00.000Z'')) =
       Inr ()"
  by (simp add: updateStoryVote_def fetchGlobalStories_def handleVote_def loaded_def
      truthy_userVotes_def object_prototype_keys_def)

text \<open>
  C9, amended. For a story id that no story of the store has, \<open>updateStoryVote\<close> resolves
  and leaves the store as it was; \<open>handleVote\<close>, for an id that passes its guard, then
  resolves as well, records the vote and logs nothing.
\<close>

theorem unknown_story_ignored:
  assumes "\<forall>s \<in> set this_stories. story_id s \<noteq> storyId"
  shows "updateStoryVote this_stories storyId voteType = Inr this_stories
   \<and> (service st = this_stories \<and> \<not> truthy_userVotes (userVotes st) storyId \<longrightarrow>
        fst (handleVote updateStoryVote storyId voteType st) = Inr () \<and>
        service (snd (handleVote updateStoryVote storyId voteType st)) = this_stories \<and>
        userVotes (snd (handleVote updateStoryVote storyId voteType st)) storyId =
          Some voteType \<and>
        console (snd (handleVote updateStoryVote storyId voteType st)) = console st)"
proof -
  from assms have "List.find (\<lambda>s. story_id s = storyId) this_stories = None"
    by (simp add: find_None_iff)
  then have u: "updateStoryVote this_stories storyId voteType = Inr this_stories"
    by (simp add: updateStoryVote_def)
  then show ?thesis
    by (simp add: handleVote_def)
qed

text \<open>A vote for the id \<open>3\<close>, the store holding the two stories served.\<close>

theorem unknown_story_ignored_witness:
  "updateStoryVote (fetchGlobalStories ''2024-05-01T09:30:00.000Z'') ''3'' FakeVote =
     Inr (fetchGlobalStories ''2024-05-01T09:30:00.000Z'')
   \<and> fst (handleVote updateStoryVote ''3'' FakeVote
        ((loaded ''2024-05-01T09:30:00.000Z'')
           \<lparr>service := fetchGlobalStories ''2024-05-01T09:30:00.000Z''\<rparr>)) = Inr ()
   \<and> userVotes (snd (handleVote updateStoryVote ''3'' FakeVote
        ((loaded ''2024-05-01T09:30:00.000Z'')
           \<lparr>service := fetchGlobalStories ''2024-05-01T09:30:00.000Z''\<rparr>))) ''3'' = Some FakeVote"
proof -
  let ?store = "fetchGlobalStories ''2024-05-01T09:30:00.000Z''"
  let ?st = "(loaded ''2024-05-01T09:30:00.000Z'')\<lparr>service := ?store\<rparr>"
  have a: "\<forall>s \<in> set ?store. story_id s \<noteq> ''3''"
    by (simp add: fetchGlobalStories_def)
  have b: "service ?st = ?store \<and> \<not> truthy_userVotes (userVotes ?st) ''3''"
    by (simp add: loaded_def truthy_userVotes_def object_prototype_keys_def)
  from unknown_story_ignored [OF a, of FakeVote ?st] b show ?thesis
    by blast
qed

subsection \<open>The frame of a persisted vote\<close>





end
